theory Spec2Isabelle
  imports Main
begin

section \<open>JavaScript values\<close>

text \<open>
  The values that flow through \<^verbatim>\<open>metatags.ts\<close> are strings, \<^verbatim>\<open>undefined\<close> (a property
  that is not there) and \<^verbatim>\<open>null\<close> (what \<^verbatim>\<open>searchParams.get\<close> and \<^verbatim>\<open>getRelativeUrl\<close>
  return for "nothing").
\<close>

datatype jsval = Undefined | Null | Str string

text \<open>Truthiness: of these values only a non-empty string is truthy.\<close>

fun truthy :: "jsval \<Rightarrow> bool" where
  "truthy (Str s) = (s \<noteq> [])"
| "truthy Undefined = False"
| "truthy Null = False"

text \<open>\<^verbatim>\<open>a || b\<close> and \<^verbatim>\<open>a && b\<close>.\<close>

definition js_or :: "jsval \<Rightarrow> jsval \<Rightarrow> jsval" where
  "js_or a b = (if truthy a then a else b)"

definition js_and :: "jsval \<Rightarrow> jsval \<Rightarrow> jsval" where
  "js_and a b = (if truthy a then b else a)"

text \<open>
  Reading a property of an object whose own properties are all strings
  (\<^verbatim>\<open>attributes.name\<close>, \<^verbatim>\<open>obj["og:title"]\<close>): the string, or \<^verbatim>\<open>undefined\<close>. None of the
  property names this file reads is inherited from \<^verbatim>\<open>Object.prototype\<close>.
\<close>

definition get_prop :: "(string \<rightharpoonup> string) \<Rightarrow> string \<Rightarrow> jsval" where
  "get_prop m k = (case m k of None \<Rightarrow> Undefined | Some s \<Rightarrow> Str s)"

text \<open>
  The conversion to a string that a value undergoes where a string is wanted: as a
  property key, or as the argument of \<^verbatim>\<open>new URL\<close>.
\<close>

fun js_string :: "jsval \<Rightarrow> string" where
  "js_string Undefined = ''undefined''"
| "js_string Null = ''null''"
| "js_string (Str s) = s"

text \<open>
  \<^verbatim>\<open>obj[property] = v\<close> on the plain object \<^verbatim>\<open>const obj = {}\<close>, with \<^verbatim>\<open>v\<close> a string. The
  key \<^verbatim>\<open>__proto__\<close> is the inherited accessor of \<^verbatim>\<open>Object.prototype\<close>, whose setter
  ignores a value that is neither an object nor null: no property is created.
\<close>

type_synonym obj = "string \<rightharpoonup> string"

definition obj_set :: "obj \<Rightarrow> jsval \<Rightarrow> string \<Rightarrow> obj" where
  "obj_set obj k v = (if js_string k = ''__proto__'' then obj else obj(js_string k \<mapsto> v))"

section \<open>The world outside the file\<close>

datatype error = TypeError | FetchError

text \<open>What the code reads of a \<^verbatim>\<open>URL\<close> object: \<^verbatim>\<open>protocol\<close>, \<^verbatim>\<open>host\<close> and \<^verbatim>\<open>toString()\<close>.\<close>

record url =
  protocol :: string
  host :: string
  href :: string

text \<open>The session token \<^verbatim>\<open>getToken\<close> resolves: only its \<^verbatim>\<open>email\<close> is read.\<close>

record session =
  email :: jsval

record request =
  req_method :: string
  url_param :: jsval
  cookie :: string

text \<open>
  The parsed document of the \<^verbatim>\<open>ultrahtml\<close> package: a tree whose element nodes carry a
  name, string attributes and children, and whose text, comment and doctype nodes carry a
  \<^verbatim>\<open>value\<close>.
\<close>

datatype node =
    Document "node list"
  | Element string "string \<rightharpoonup> string" "node list"
  | Text string
  | Comment string
  | Doctype string

text \<open>
  The imported functions and platform calls, as parameters:
  \<^item> \<open>new_URL s base\<close> is \<^verbatim>\<open>new URL(s)\<close> or \<^verbatim>\<open>new URL(s, base)\<close>, \<open>None\<close> when it throws;
  \<^item> \<open>getToken\<close> is the session verifier, \<open>None\<close> for \<^verbatim>\<open>null\<close>;
  \<^item> \<open>ratelimit_limit key\<close> is the \<^verbatim>\<open>success\<close> field of \<^verbatim>\<open>ratelimit.limit(key)\<close>;
  \<^item> \<open>fetch_text u agent\<close> is the body text of the response to \<^verbatim>\<open>fetch(u)\<close> sent with
    that user agent, or the rejection (abort after the timeout, network failure);
  \<^item> \<open>getDomainWithoutWWW\<close>, \<open>sanitize_transform\<close> (\<^verbatim>\<open>transform\<close> with the \<^verbatim>\<open>sanitize\<close>
    transformer and its \<^verbatim>\<open>blockElements\<close>), \<open>parse\<close> and \<open>he_decode\<close> (\<^verbatim>\<open>he.decode\<close> on a
    string) are the imported functions of these names.
\<close>

record env =
  new_URL :: "string \<Rightarrow> string option \<Rightarrow> url option"
  getToken :: "request \<Rightarrow> session option"
  ratelimit_limit :: "string \<Rightarrow> bool"
  fetch_text :: "string \<Rightarrow> string \<Rightarrow> error + string"
  getDomainWithoutWWW :: "string \<Rightarrow> string option"
  sanitize_transform :: "string list \<Rightarrow> string \<Rightarrow> string"
  parse :: "string \<Rightarrow> node"
  he_decode :: "string \<Rightarrow> string"

text \<open>The calls that leave the process, in the order they are made.\<close>

datatype event =
    GetToken
  | RateLimit string
  | Fetch string
  | RecordMetatags string bool

text \<open>
  Modelled from the spec: \<^verbatim>\<open>isValidUrl\<close> of \<^verbatim>\<open>@/lib/utils\<close> is not among the sources. The
  URL validator of the specification accepts a string that is present and parses as an
  absolute URL with an HTTP(S) scheme, and nothing else.
\<close>

definition isValidUrl :: "env \<Rightarrow> jsval \<Rightarrow> bool" where
  "isValidUrl env v =
     (case v of
        Str s \<Rightarrow>
          (case new_URL env s None of
             None \<Rightarrow> False
           | Some u \<Rightarrow> protocol u = ''http:'' \<or> protocol u = ''https:'')
      | Undefined \<Rightarrow> False
      | Null \<Rightarrow> False)"

section \<open>Fetching and parsing\<close>

definition getHtml :: "env \<Rightarrow> string \<Rightarrow> error + string" where
  "getHtml env u = fetch_text env u ''dub-bot/1.0''"

definition specialHostnames :: "string set" where
  "specialHostnames = {''developer.mozilla.org''}"

definition getAst :: "env \<Rightarrow> string \<Rightarrow> error + node" where
  "getAst env u =
     (case getHtml env u of
        Inl e \<Rightarrow> Inl e
      | Inr html \<Rightarrow>
          Inr (parse env
                 (if (case getDomainWithoutWWW env u of
                        None \<Rightarrow> False
                      | Some d \<Rightarrow> d \<in> specialHostnames)
                  then sanitize_transform env [''script''] html
                  else html)))"

text \<open>
  \<^verbatim>\<open>escapeEntities\<close> hands its argument to \<^verbatim>\<open>he.decode\<close>, which calls a string method
  on it: an argument that is not a string raises a \<^verbatim>\<open>TypeError\<close>.
\<close>

fun escapeEntities :: "env \<Rightarrow> jsval \<Rightarrow> error + string" where
  "escapeEntities env (Str s) = Inr (he_decode env s)"
| "escapeEntities env Undefined = Inl TypeError"
| "escapeEntities env Null = Inl TypeError"

section \<open>Resolving the image URL\<close>

definition getRelativeUrl :: "env \<Rightarrow> string \<Rightarrow> jsval \<Rightarrow> error + jsval" where
  "getRelativeUrl env u imageUrl =
     (if \<not> truthy imageUrl then Inr Null
      else if isValidUrl env imageUrl then Inr imageUrl
      else
        (case new_URL env u None of
           None \<Rightarrow> Inl TypeError
         | Some page \<Rightarrow>
             (let baseURL = protocol page @ ''//'' @ host page in
              case new_URL env (js_string imageUrl) (Some baseURL) of
                None \<Rightarrow> Inl TypeError
              | Some r \<Rightarrow> Inr (Str (href r)))))"

section \<open>Extracting the tags\<close>

text \<open>The \<^verbatim>\<open>value\<close> property of a node: element and document nodes have none.\<close>

fun node_value :: "node \<Rightarrow> jsval" where
  "node_value (Text s) = Str s"
| "node_value (Comment s) = Str s"
| "node_value (Doctype s) = Str s"
| "node_value (Element n a cs) = Undefined"
| "node_value (Document cs) = Undefined"

text \<open>
  The callback handed to \<^verbatim>\<open>walk\<close>. Reading \<^verbatim>\<open>node.children[0].value\<close> of an element
  without children reads a property of \<^verbatim>\<open>undefined\<close>, a \<^verbatim>\<open>TypeError\<close>.
\<close>

fun callback :: "env \<Rightarrow> node \<Rightarrow> obj \<Rightarrow> error + obj" where
  "callback env (Element name attributes children) obj =
     (let property =
            js_or (js_or (js_or (get_prop attributes ''name'') (get_prop attributes ''property''))
                         (get_prop attributes ''itemprop''))
                  (get_prop attributes ''rel'');
          content = js_or (get_prop attributes ''content'') (get_prop attributes ''href'')
      in if name = ''title'' then
           (case children of
              [] \<Rightarrow> Inl TypeError
            | c # _ \<Rightarrow>
                (case escapeEntities env (node_value c) of
                   Inl e \<Rightarrow> Inl e
                 | Inr s \<Rightarrow> Inr (obj(''title'' \<mapsto> s))))
         else
           (case content of
              Str c \<Rightarrow>
                (case escapeEntities env content of
                   Inl e \<Rightarrow> Inl e
                 | Inr s \<Rightarrow> Inr (obj_set obj property s))
            | Undefined \<Rightarrow> Inr obj
            | Null \<Rightarrow> Inr obj))"
| "callback env (Document cs) obj = Inr obj"
| "callback env (Text s) obj = Inr obj"
| "callback env (Comment s) obj = Inr obj"
| "callback env (Doctype s) obj = Inr obj"

text \<open>
  Modelled from the spec: \<^verbatim>\<open>walk\<close> of the \<^verbatim>\<open>ultrahtml\<close> package is not among the sources.
  The specification has it visit the whole tree depth-first in document order; \<open>walk\<close> is
  the sequence of nodes in that order.
\<close>

fun walk :: "node \<Rightarrow> node list" where
  "walk (Document cs) = Document cs # concat (map walk cs)"
| "walk (Element n a cs) = Element n a cs # concat (map walk cs)"
| "walk (Text s) = [Text s]"
| "walk (Comment s) = [Comment s]"
| "walk (Doctype s) = [Doctype s]"

text \<open>The callback run over the visited nodes; an exception it throws ends the walk.\<close>

fun visit_all :: "env \<Rightarrow> node list \<Rightarrow> obj \<Rightarrow> error + obj" where
  "visit_all env [] obj = Inr obj"
| "visit_all env (n # ns) obj =
     (case callback env n obj of
        Inl e \<Rightarrow> Inl e
      | Inr obj' \<Rightarrow> visit_all env ns obj')"

definition extract_tags :: "env \<Rightarrow> node \<Rightarrow> error + obj" where
  "extract_tags env ast = visit_all env (walk ast) Map.empty"

text \<open>The three fields read off the collected object.\<close>

definition final_title :: "obj \<Rightarrow> jsval" where
  "final_title obj =
     js_or (js_or (get_prop obj ''og:title'') (get_prop obj ''twitter:title'')) (get_prop obj ''title'')"

definition final_description :: "obj \<Rightarrow> jsval" where
  "final_description obj =
     js_or (js_or (get_prop obj ''description'') (get_prop obj ''og:description''))
           (get_prop obj ''twitter:description'')"

definition raw_image :: "obj \<Rightarrow> jsval" where
  "raw_image obj =
     js_or (js_or (js_or (js_or (get_prop obj ''og:image'') (get_prop obj ''twitter:image''))
                         (get_prop obj ''image_src''))
                  (get_prop obj ''icon''))
           (get_prop obj ''shortcut icon'')"

text \<open>The second argument of \<^verbatim>\<open>recordMetatags\<close>.\<close>

definition missing_flag :: "jsval \<Rightarrow> jsval \<Rightarrow> jsval \<Rightarrow> bool" where
  "missing_flag t d i = (if truthy (js_and (js_and t d) i) then False else True)"

record metatags =
  title :: jsval
  description :: jsval
  image_url :: jsval

definition getMetaTags :: "env \<Rightarrow> string \<Rightarrow> (error + metatags) \<times> event list" where
  "getMetaTags env u =
     (case getAst env u of
        Inl e \<Rightarrow> (Inl e, [Fetch u])
      | Inr ast \<Rightarrow>
          (case extract_tags env ast of
             Inl e \<Rightarrow> (Inl e, [Fetch u])
           | Inr obj \<Rightarrow>
               (let t = final_title obj;
                    d = final_description obj;
                    i = raw_image obj;
                    recorded = RecordMetatags u (missing_flag t d i)
                in case getRelativeUrl env u i of
                     Inl e \<Rightarrow> (Inl e, [Fetch u, recorded])
                   | Inr resolved \<Rightarrow>
                       (Inr \<lparr>title = t, description = d, image_url = resolved\<rparr>,
                        [Fetch u, recorded]))))"

section \<open>The request handler\<close>

text \<open>
  What \<^verbatim>\<open>JSON.stringify\<close> makes of the returned object, as the members of the JSON
  object in their order: a property whose value is \<^verbatim>\<open>undefined\<close> is left out, \<^verbatim>\<open>null\<close>
  is written as \<^verbatim>\<open>null\<close>, a string as a JSON string.
\<close>

datatype json = JNull | JString string

fun json_member :: "string \<Rightarrow> jsval \<Rightarrow> (string \<times> json) list" where
  "json_member k Undefined = []"
| "json_member k Null = [(k, JNull)]"
| "json_member k (Str s) = [(k, JString s)]"

definition JSON_stringify :: "metatags \<Rightarrow> (string \<times> json) list" where
  "JSON_stringify m =
     json_member ''title'' (title m) @ json_member ''description'' (description m) @
     json_member ''image'' (image_url m)"

text \<open>
  A response: its body is plain text (as UTF-8 bytes) or the JSON object just described.
\<close>

datatype body = TextBody string | JsonBody "(string \<times> json) list"

record response =
  status :: nat
  headers :: "(string \<times> string) list"
  body :: body

text \<open>\<^verbatim>\<open>session?.email\<close>.\<close>

fun session_email :: "session option \<Rightarrow> jsval" where
  "session_email None = Undefined"
| "session_email (Some s) = email s"

text \<open>The body of the 429 response; its last four bytes are the emoji U+1F97A.\<close>

definition rate_limited_body :: string where
  "rate_limited_body =
     ''Don'' @ [CHR 0x27] @ ''t DDoS me pls '' @ [CHR 0xF0, CHR 0x9F, CHR 0xA5, CHR 0xBA]"

text \<open>
  The handler returns the response, or the exception it does not catch (which the runtime
  answers with a 500), together with the outside calls made on the way.
  \<^verbatim>\<open>getMetaTags\<close> takes a string: a \<^verbatim>\<open>url\<close> that passed \<^verbatim>\<open>isValidUrl\<close> is one.
\<close>

definition handler :: "env \<Rightarrow> request \<Rightarrow> (error + response) \<times> event list" where
  "handler env req =
     (if req_method req = ''GET'' then
        (let u = url_param req in
         if \<not> isValidUrl env u then
           (Inr \<lparr>status = 400, headers = [], body = TextBody ''Invalid URL''\<rparr>, [])
         else
           (let session = getToken env req;
                anonymous = \<not> truthy (session_email session);
                gate = GetToken # (if anonymous then [RateLimit ''metatags''] else [])
            in if anonymous \<and> \<not> ratelimit_limit env ''metatags'' then
                 (Inr \<lparr>status = 429, headers = [], body = TextBody rate_limited_body\<rparr>, gate)
               else
                 (case u of
                    Str s \<Rightarrow>
                      (case getMetaTags env s of
                         (Inl e, calls) \<Rightarrow> (Inl e, gate @ calls)
                       | (Inr metatags, calls) \<Rightarrow>
                           (Inr \<lparr>status = 200,
                                 headers = [(''Content-Type'', ''application/json'')],
                                 body = JsonBody (JSON_stringify metatags)\<rparr>,
                            gate @ calls))
                  | Undefined \<Rightarrow> (Inl TypeError, gate)
                  | Null \<Rightarrow> (Inl TypeError, gate))))
      else
        (Inr \<lparr>status = 405, headers = [],
              body = TextBody (''Method '' @ req_method req @ '' Not Allowed'')\<rparr>, []))"

section \<open>The specification's wording\<close>

text \<open>
  The specification reads the fallback chains with \<^verbatim>\<open>??\<close>, "first defined": an operand
  that is neither \<^verbatim>\<open>undefined\<close> nor \<^verbatim>\<open>null\<close> is taken, the empty string included.
\<close>

definition nullish :: "jsval \<Rightarrow> jsval \<Rightarrow> jsval" where
  "nullish a b = (if a = Undefined \<or> a = Null then b else a)"

text \<open>The first attribute that is present, as the specification picks key and value.\<close>

fun first_present :: "string option list \<Rightarrow> string option" where
  "first_present [] = None"
| "first_present (None # xs) = first_present xs"
| "first_present (Some s # xs) = Some s"

text \<open>The first attribute that is present and not the empty string.\<close>

fun first_nonempty :: "string option list \<Rightarrow> string option" where
  "first_nonempty [] = None"
| "first_nonempty (None # xs) = first_nonempty xs"
| "first_nonempty (Some s # xs) = (if s = [] then first_nonempty xs else Some s)"

text \<open>
  The key of a node that is not a title element: the first non-empty attribute among
  \<^verbatim>\<open>name\<close>, \<^verbatim>\<open>property\<close>, \<^verbatim>\<open>itemprop\<close>, \<^verbatim>\<open>rel\<close>; when there is none, what \<^verbatim>\<open>rel\<close> holds (the
  empty string), or the text \<^verbatim>\<open>undefined\<close> when \<^verbatim>\<open>rel\<close> is not there either.
\<close>

definition meta_key :: "(string \<rightharpoonup> string) \<Rightarrow> string" where
  "meta_key a =
     (case first_nonempty [a ''name'', a ''property'', a ''itemprop'', a ''rel''] of
        Some k \<Rightarrow> k
      | None \<Rightarrow> (case a ''rel'' of Some k \<Rightarrow> k | None \<Rightarrow> ''undefined''))"

text \<open>
  Its value: the first non-empty attribute among \<^verbatim>\<open>content\<close>, \<^verbatim>\<open>href\<close>; when there is
  none, what \<^verbatim>\<open>href\<close> holds (the empty string), if it is there.
\<close>

definition meta_value :: "(string \<rightharpoonup> string) \<Rightarrow> string option" where
  "meta_value a =
     (case first_nonempty [a ''content'', a ''href''] of
        Some v \<Rightarrow> Some v
      | None \<Rightarrow> a ''href'')"

text \<open>The binding a visited node adds to the tag map, if it adds one.\<close>

fun node_binding :: "env \<Rightarrow> node \<Rightarrow> (string \<times> string) option" where
  "node_binding env (Element name a cs) =
     (if name = ''title'' then
        (case cs of
           [] \<Rightarrow> None
         | c # _ \<Rightarrow>
             (case node_value c of
                Str t \<Rightarrow> Some (''title'', he_decode env t)
              | Undefined \<Rightarrow> None
              | Null \<Rightarrow> None))
      else
        (case meta_value a of
           None \<Rightarrow> None
         | Some v \<Rightarrow>
             if meta_key a = ''__proto__'' then None else Some (meta_key a, he_decode env v)))"
| "node_binding env (Document cs) = None"
| "node_binding env (Text s) = None"
| "node_binding env (Comment s) = None"
| "node_binding env (Doctype s) = None"

section \<open>Example pages\<close>

text \<open>
  A page at \<^verbatim>\<open>https://example.com/foo/bar\<close> whose text parses to a given tree, a given
  session and a given answer of the rate limiter. \<open>demo_URL\<close> is the URL parser on the
  strings the examples use: the page, an absolute image, and \<^verbatim>\<open>/favicon.png\<close> alone (no
  URL) and against the page's origin; it rejects every other string, \<^verbatim>\<open>http://\<close> among
  them. None of the texts holds a character reference, so decoding leaves them as they are.
\<close>

definition demo_page :: string where
  "demo_page = ''https://example.com/foo/bar''"

definition demo_URL :: "string \<Rightarrow> string option \<Rightarrow> url option" where
  "demo_URL s base =
     (if s = ''https://example.com/foo/bar'' then
        Some \<lparr>protocol = ''https:'', host = ''example.com'',
              href = ''https://example.com/foo/bar''\<rparr>
      else if s = ''https://example.com/a.png'' then
        Some \<lparr>protocol = ''https:'', host = ''example.com'',
              href = ''https://example.com/a.png''\<rparr>
      else if s = ''/favicon.png'' \<and> base = Some ''https://example.com'' then
        Some \<lparr>protocol = ''https:'', host = ''example.com'',
              href = ''https://example.com/favicon.png''\<rparr>
      else None)"

definition demo_env :: "node \<Rightarrow> session option \<Rightarrow> bool \<Rightarrow> env" where
  "demo_env ast who ok =
     \<lparr>new_URL = demo_URL,
      getToken = (\<lambda>req. who),
      ratelimit_limit = (\<lambda>key. ok),
      fetch_text = (\<lambda>u agent. Inr ''<html>''),
      getDomainWithoutWWW = (\<lambda>u. Some ''example.com''),
      sanitize_transform = (\<lambda>blocked html. html),
      parse = (\<lambda>html. ast),
      he_decode = (\<lambda>s. s)\<rparr>"

definition demo_request :: "string \<Rightarrow> jsval \<Rightarrow> request" where
  "demo_request verb u = \<lparr>req_method = verb, url_param = u, cookie = []\<rparr>"

text \<open>A session with an e-mail address.\<close>

definition demo_user :: "session option" where
  "demo_user = Some \<lparr>email = Str ''a@example.com''\<rparr>"

text \<open>A title, a description and a relative icon.\<close>

definition page_plain :: node where
  "page_plain =
     Document
       [Element ''html'' Map.empty
          [Element ''head'' Map.empty
             [Element ''title'' Map.empty [Text ''T''],
              Element ''meta'' [''name'' \<mapsto> ''description'', ''content'' \<mapsto> ''D''] [],
              Element ''link'' [''rel'' \<mapsto> ''icon'', ''href'' \<mapsto> ''/favicon.png''] []]]]"

text \<open>An \<^verbatim>\<open>og:title\<close> whose \<^verbatim>\<open>content\<close> and \<^verbatim>\<open>href\<close> are empty, before the title element.\<close>

definition page_og_title_empty :: node where
  "page_og_title_empty =
     Document
       [Element ''meta''
          [''property'' \<mapsto> ''og:title'', ''content'' \<mapsto> [], ''href'' \<mapsto> []] [],
        Element ''title'' Map.empty [Text ''T'']]"

text \<open>An empty \<^verbatim>\<open>description\<close> and an \<^verbatim>\<open>og:description\<close>.\<close>

definition page_description_empty :: node where
  "page_description_empty =
     Document
       [Element ''meta''
          [''name'' \<mapsto> ''description'', ''content'' \<mapsto> [], ''href'' \<mapsto> []] [],
        Element ''meta'' [''property'' \<mapsto> ''og:description'', ''content'' \<mapsto> ''D''] []]"

text \<open>An empty \<^verbatim>\<open>title\<close> meta tag, a description and an absolute image.\<close>

definition page_title_empty :: node where
  "page_title_empty =
     Document
       [Element ''meta'' [''name'' \<mapsto> ''title'', ''content'' \<mapsto> [], ''href'' \<mapsto> []] [],
        Element ''meta'' [''name'' \<mapsto> ''description'', ''content'' \<mapsto> ''D''] [],
        Element ''meta''
          [''property'' \<mapsto> ''og:image'', ''content'' \<mapsto> ''https://example.com/a.png''] []]"

text \<open>The same key written twice.\<close>

definition page_two_descriptions :: node where
  "page_two_descriptions =
     Document
       [Element ''meta'' [''name'' \<mapsto> ''description'', ''content'' \<mapsto> ''first''] [],
        Element ''meta'' [''name'' \<mapsto> ''description'', ''content'' \<mapsto> ''second''] []]"

text \<open>A meta tag with an empty \<^verbatim>\<open>name\<close> and a \<^verbatim>\<open>property\<close>.\<close>

definition attrs_empty_name :: "string \<rightharpoonup> string" where
  "attrs_empty_name = [''name'' \<mapsto> [], ''property'' \<mapsto> ''og:title'', ''content'' \<mapsto> ''x'']"

text \<open>A title element without children, and one whose first child is an element.\<close>

definition page_title_childless :: node where
  "page_title_childless =
     Document [Element ''head'' Map.empty [Element ''title'' Map.empty []]]"

definition title_with_markup :: node where
  "title_with_markup = Element ''title'' Map.empty [Element ''b'' Map.empty [Text ''x'']]"

text \<open>An image reference that is no URL and resolves to none.\<close>

definition page_bad_image :: node where
  "page_bad_image =
     Document
       [Element ''title'' Map.empty [Text ''T''],
        Element ''meta'' [''property'' \<mapsto> ''og:image'', ''content'' \<mapsto> ''http://''] []]"

section \<open>The callback, node by node\<close>

lemma js_or_key:
  "js_string (js_or (js_or (js_or (get_prop a ''name'') (get_prop a ''property''))
                        (get_prop a ''itemprop''))
                 (get_prop a ''rel'')) = meta_key a"
  by (simp add: js_or_def get_prop_def meta_key_def split: option.splits)

lemma js_or_value:
  "js_or (get_prop a ''content'') (get_prop a ''href'') =
     (case meta_value a of None \<Rightarrow> Undefined | Some v \<Rightarrow> Str v)"
  by (simp add: js_or_def get_prop_def meta_value_def split: option.splits)

lemma callback_meta:
  "name \<noteq> ''title'' \<Longrightarrow>
   callback env (Element name a cs) obj =
     Inr (case meta_value a of
            None \<Rightarrow> obj
          | Some v \<Rightarrow>
              if meta_key a = ''__proto__'' then obj else obj(meta_key a \<mapsto> he_decode env v))"
  by (simp add: Let_def js_or_key js_or_value obj_set_def split: option.splits)

lemma callback_title_child:
  "callback env (Element ''title'' a (c # cs)) obj =
     (case node_value c of
        Str t \<Rightarrow> Inr (obj(''title'' \<mapsto> he_decode env t))
      | Undefined \<Rightarrow> Inl TypeError
      | Null \<Rightarrow> Inl TypeError)"
  by (simp add: Let_def split: jsval.splits)

lemma callback_title_empty: "callback env (Element ''title'' a []) obj = Inl TypeError"
  by (simp add: Let_def)

lemma callback_binding:
  assumes "callback env n obj = Inr obj'"
  shows "obj' = (case node_binding env n of None \<Rightarrow> obj | Some (k, v) \<Rightarrow> obj(k \<mapsto> v))"
proof (cases n)
  case (Element name a cs)
  show ?thesis
  proof (cases "name = ''title''")
    case True
    with Element assms show ?thesis
      by (cases cs)
         (auto simp del: callback.simps simp: callback_title_empty callback_title_child
               split: jsval.splits)
  next
    case False
    with Element assms show ?thesis
      by (auto simp del: callback.simps simp: callback_meta split: option.splits)
  qed
qed (use assms in auto)

lemma callback_error:
  assumes "callback env n obj = Inl e"
  shows "e = TypeError"
proof (cases n)
  case (Element name a cs)
  show ?thesis
  proof (cases "name = ''title''")
    case True
    with Element assms show ?thesis
      by (cases cs)
         (auto simp del: callback.simps simp: callback_title_empty callback_title_child
               split: jsval.splits)
  next
    case False
    with Element assms show ?thesis
      by (simp del: callback.simps add: callback_meta)
  qed
qed (use assms in auto)

section \<open>The walk\<close>

text \<open>
  A walk that ends without an exception leaves the map it started from, overridden by
  the bindings of the visited nodes; of two bindings of one key the later one stands.
\<close>

lemma visit_all_bindings:
  "visit_all env ns obj = Inr obj' \<Longrightarrow>
     obj' = obj ++ map_of (rev (List.map_filter (node_binding env) ns))"
proof (induction ns arbitrary: obj)
  case Nil
  then show ?case by simp
next
  case (Cons n ns)
  from Cons.prems obtain obj1 where
    step: "callback env n obj = Inr obj1" and rest: "visit_all env ns obj1 = Inr obj'"
    by (auto split: sum.splits)
  have IH: "obj' = obj1 ++ map_of (rev (List.map_filter (node_binding env) ns))"
    using Cons.IH [OF rest] .
  show ?case
  proof (cases "node_binding env n")
    case None
    with callback_binding [OF step] IH show ?thesis
      by simp
  next
    case (Some kv)
    obtain k v where kv: "kv = (k, v)" by (cases kv)
    with Some callback_binding [OF step] have "obj1 = obj(k \<mapsto> v)" by simp
    with IH Some kv show ?thesis
      by (simp add: map_add_upd_left)
  qed
qed

lemma visit_all_childless_title:
  "Element ''title'' a [] \<in> set ns \<Longrightarrow> visit_all env ns obj = Inl TypeError"
proof (induction ns arbitrary: obj)
  case Nil
  then show ?case by simp
next
  case (Cons n ns)
  show ?case
  proof (cases "callback env n obj")
    case (Inl e)
    with callback_error [OF Inl] show ?thesis by simp
  next
    case (Inr obj1)
    have "n \<noteq> Element ''title'' a []"
      using Inr callback_title_empty [of env a obj] by auto
    with Cons.prems have "Element ''title'' a [] \<in> set ns" by simp
    with Cons.IH Inr show ?thesis by simp
  qed
qed

section \<open>The fields\<close>

lemma not_truthy_iff: "v \<noteq> Null \<Longrightarrow> (\<not> truthy v) = (v = Undefined \<or> v = Str [])"
  by (cases v) simp_all

lemma final_title_not_Null: "final_title obj \<noteq> Null"
  by (simp add: final_title_def js_or_def get_prop_def split: option.splits)

lemma final_description_not_Null: "final_description obj \<noteq> Null"
  by (simp add: final_description_def js_or_def get_prop_def split: option.splits)

lemma getRelativeUrl_Null:
  "getRelativeUrl env u i = Inr r \<Longrightarrow> (r = Null) = (\<not> truthy i)"
  by (auto simp: getRelativeUrl_def Let_def split: if_splits option.splits)

lemma getRelativeUrl_defined: "getRelativeUrl env u i = Inr r \<Longrightarrow> r \<noteq> Undefined"
  by (auto simp: getRelativeUrl_def Let_def split: if_splits option.splits)

lemma getRelativeUrl_throws: "getRelativeUrl env u i = Inl e \<Longrightarrow> truthy i \<and> e = TypeError"
  by (auto simp: getRelativeUrl_def Let_def split: if_splits option.splits)

lemma getMetaTags_Inr:
  assumes "getMetaTags env u = (Inr m, calls)"
  obtains ast obj where
    "getAst env u = Inr ast" and "extract_tags env ast = Inr obj" and
    "title m = final_title obj" and "description m = final_description obj" and
    "getRelativeUrl env u (raw_image obj) = Inr (image_url m)" and
    "calls =
       [Fetch u,
        RecordMetatags u
          (missing_flag (final_title obj) (final_description obj) (raw_image obj))]"
  using assms
  by (auto simp: getMetaTags_def Let_def split: sum.splits)

lemma getMetaTags_calls:
  "snd (getMetaTags env u) = [Fetch u] \<or>
   (\<exists>flag. snd (getMetaTags env u) = [Fetch u, RecordMetatags u flag])"
  by (auto simp: getMetaTags_def Let_def split: sum.splits)

lemma isValidUrl_Str: "isValidUrl env v \<Longrightarrow> \<exists>s. v = Str s"
  by (cases v) (simp_all add: isValidUrl_def)

section \<open>The example pages, evaluated\<close>

lemmas demo_defs =
  demo_env_def demo_URL_def demo_page_def demo_request_def demo_user_def

lemmas run_defs =
  getMetaTags_def getAst_def getHtml_def extract_tags_def getRelativeUrl_def isValidUrl_def
  final_title_def final_description_def raw_image_def missing_flag_def
  js_or_def js_and_def get_prop_def obj_set_def specialHostnames_def Let_def

lemma tags_og_title_empty:
  "extract_tags (demo_env page_og_title_empty who ok) page_og_title_empty =
     Inr [''og:title'' \<mapsto> [], ''title'' \<mapsto> ''T'']"
  by (simp add: page_og_title_empty_def demo_defs run_defs)

lemma tags_description_empty:
  "extract_tags (demo_env page_description_empty who ok) page_description_empty =
     Inr [''description'' \<mapsto> [], ''og:description'' \<mapsto> ''D'']"
  by (simp add: page_description_empty_def demo_defs run_defs)

lemma getMetaTags_plain:
  "getMetaTags (demo_env page_plain who ok) demo_page =
     (Inr \<lparr>title = Str ''T'', description = Str ''D'',
           image_url = Str ''https://example.com/favicon.png''\<rparr>,
      [Fetch demo_page, RecordMetatags demo_page False])"
  by (simp add: page_plain_def demo_defs run_defs)

lemma getMetaTags_title_empty:
  "getMetaTags (demo_env page_title_empty who ok) demo_page =
     (Inr \<lparr>title = Str [], description = Str ''D'',
           image_url = Str ''https://example.com/a.png''\<rparr>,
      [Fetch demo_page, RecordMetatags demo_page True])"
  by (simp add: page_title_empty_def demo_defs run_defs)

lemma getMetaTags_empty_page:
  "getMetaTags (demo_env (Document []) who ok) demo_page =
     (Inr \<lparr>title = Undefined, description = Undefined, image_url = Null\<rparr>,
      [Fetch demo_page, RecordMetatags demo_page True])"
  by (simp add: demo_defs run_defs)

lemma demo_page_valid: "isValidUrl (demo_env ast who ok) (Str demo_page)"
  by (simp add: demo_defs isValidUrl_def)

section \<open>Field precedence\<close>

text \<open>
  C1 (as amended). For every tag map, each final field is the first non-empty value of
  its chain, in the chain's order: the title among \<^verbatim>\<open>og:title\<close>, \<^verbatim>\<open>twitter:title\<close>, the
  description among \<^verbatim>\<open>description\<close>, \<^verbatim>\<open>og:description\<close>, the raw image among \<^verbatim>\<open>og:image\<close>,
  \<^verbatim>\<open>twitter:image\<close>, \<^verbatim>\<open>image_src\<close>, \<^verbatim>\<open>icon\<close>; when none of these is a non-empty string, the
  field is whatever the last key of the chain holds (\<^verbatim>\<open>title\<close>, \<^verbatim>\<open>twitter:description\<close>,
  \<^verbatim>\<open>shortcut icon\<close>): a string, possibly empty, or \<^verbatim>\<open>undefined\<close>. The object a completed
  extraction returns holds these fields of the extracted map, the image resolved.
\<close>

theorem field_precedence:
  "final_title obj =
     (case find truthy (map (get_prop obj) [''og:title'', ''twitter:title'']) of
        Some v \<Rightarrow> v
      | None \<Rightarrow> get_prop obj ''title'') \<and>
   final_description obj =
     (case find truthy (map (get_prop obj) [''description'', ''og:description'']) of
        Some v \<Rightarrow> v
      | None \<Rightarrow> get_prop obj ''twitter:description'') \<and>
   raw_image obj =
     (case find truthy
             (map (get_prop obj) [''og:image'', ''twitter:image'', ''image_src'', ''icon'']) of
        Some v \<Rightarrow> v
      | None \<Rightarrow> get_prop obj ''shortcut icon'') \<and>
   (getMetaTags env u = (Inr m, calls) \<longrightarrow>
      (\<exists>ast tags. getAst env u = Inr ast \<and> extract_tags env ast = Inr tags \<and>
         title m = final_title tags \<and> description m = final_description tags \<and>
         getRelativeUrl env u (raw_image tags) = Inr (image_url m)))"
proof -
  have "final_title obj =
     (case find truthy (map (get_prop obj) [''og:title'', ''twitter:title'']) of
        Some v \<Rightarrow> v
      | None \<Rightarrow> get_prop obj ''title'')"
    by (simp add: final_title_def js_or_def)
  moreover have "final_description obj =
     (case find truthy (map (get_prop obj) [''description'', ''og:description'']) of
        Some v \<Rightarrow> v
      | None \<Rightarrow> get_prop obj ''twitter:description'')"
    by (simp add: final_description_def js_or_def)
  moreover have "raw_image obj =
     (case find truthy
             (map (get_prop obj) [''og:image'', ''twitter:image'', ''image_src'', ''icon'']) of
        Some v \<Rightarrow> v
      | None \<Rightarrow> get_prop obj ''shortcut icon'')"
    by (simp add: raw_image_def js_or_def)
  moreover have "getMetaTags env u = (Inr m, calls) \<longrightarrow>
      (\<exists>ast tags. getAst env u = Inr ast \<and> extract_tags env ast = Inr tags \<and>
         title m = final_title tags \<and> description m = final_description tags \<and>
         getRelativeUrl env u (raw_image tags) = Inr (image_url m))"
    by (blast elim: getMetaTags_Inr)
  ultimately show ?thesis by blast
qed

theorem field_precedence_witness:
  "getMetaTags (demo_env page_plain None True) demo_page =
     (Inr \<lparr>title = Str ''T'', description = Str ''D'',
           image_url = Str ''https://example.com/favicon.png''\<rparr>,
      [Fetch demo_page, RecordMetatags demo_page False]) \<and>
   final_title [''twitter:title'' \<mapsto> ''Tw'', ''title'' \<mapsto> ''T''] = Str ''Tw'' \<and>
   (\<exists>tags. extract_tags (demo_env page_plain None True) page_plain = Inr tags \<and>
      final_title tags = Str ''T'')"
proof -
  let ?env = "demo_env page_plain None True"
  let ?m = "\<lparr>title = Str ''T'', description = Str ''D'',
              image_url = Str ''https://example.com/favicon.png''\<rparr>"
  have run: "getMetaTags ?env demo_page =
      (Inr ?m, [Fetch demo_page, RecordMetatags demo_page False])"
    by (rule getMetaTags_plain)
  have ast: "getAst ?env demo_page = Inr page_plain"
    by (simp add: demo_defs getAst_def getHtml_def specialHostnames_def)
  from field_precedence
         [of "[''twitter:title'' \<mapsto> ''Tw'', ''title'' \<mapsto> ''T'']" ?env demo_page ?m
             "[Fetch demo_page, RecordMetatags demo_page False]"]
  have first: "final_title [''twitter:title'' \<mapsto> ''Tw'', ''title'' \<mapsto> ''T''] = Str ''Tw''"
    and link: "\<exists>a tags. getAst ?env demo_page = Inr a \<and> extract_tags ?env a = Inr tags \<and>
         title ?m = final_title tags \<and> description ?m = final_description tags \<and>
         getRelativeUrl ?env demo_page (raw_image tags) = Inr (image_url ?m)"
    using run by (simp_all add: get_prop_def)
  from link ast have "\<exists>tags. extract_tags ?env page_plain = Inr tags \<and> final_title tags = Str ''T''"
    by auto
  with run first show ?thesis by simp
qed

text \<open>
  The claim as written fails where an earlier key holds the empty string: on the page
  with an empty \<^verbatim>\<open>og:title\<close> the first defined value of the chain is the empty string,
  and the title is the text of the title element.
\<close>

theorem field_precedence_counterexample:
  "extract_tags (demo_env page_og_title_empty None True) page_og_title_empty =
     Inr [''og:title'' \<mapsto> [], ''title'' \<mapsto> ''T''] \<and>
   nullish (nullish (get_prop [''og:title'' \<mapsto> [], ''title'' \<mapsto> ''T''] ''og:title'')
                    (get_prop [''og:title'' \<mapsto> [], ''title'' \<mapsto> ''T''] ''twitter:title''))
           (get_prop [''og:title'' \<mapsto> [], ''title'' \<mapsto> ''T''] ''title'') = Str [] \<and>
   final_title [''og:title'' \<mapsto> [], ''title'' \<mapsto> ''T''] = Str ''T''"
  by (simp add: tags_og_title_empty nullish_def get_prop_def final_title_def js_or_def)

section \<open>Empty strings in the chains\<close>

text \<open>
  C2 (as amended). In the field-precedence computation an empty-string map value does
  not count as defined and does not stop the fallback chain: for every tag map in which
  an earlier key of a chain is bound to the empty string, the final field is the same as
  if that key were not bound at all, so it is taken from the keys after it.
\<close>

theorem empty_string_passed_over:
  "(\<forall>k \<in> {''og:title'', ''twitter:title''}.
      obj k = Some [] \<longrightarrow> final_title obj = final_title (obj(k := None))) \<and>
   (\<forall>k \<in> {''description'', ''og:description''}.
      obj k = Some [] \<longrightarrow> final_description obj = final_description (obj(k := None))) \<and>
   (\<forall>k \<in> {''og:image'', ''twitter:image'', ''image_src'', ''icon''}.
      obj k = Some [] \<longrightarrow> raw_image obj = raw_image (obj(k := None)))"
proof -
  have "\<forall>k \<in> {''og:title'', ''twitter:title''}.
      obj k = Some [] \<longrightarrow> final_title obj = final_title (obj(k := None))"
    by (simp add: final_title_def js_or_def get_prop_def)
  moreover have "\<forall>k \<in> {''description'', ''og:description''}.
      obj k = Some [] \<longrightarrow> final_description obj = final_description (obj(k := None))"
    by (simp add: final_description_def js_or_def get_prop_def)
  moreover have "\<forall>k \<in> {''og:image'', ''twitter:image'', ''image_src'', ''icon''}.
      obj k = Some [] \<longrightarrow> raw_image obj = raw_image (obj(k := None))"
    by (simp add: raw_image_def js_or_def get_prop_def)
  ultimately show ?thesis by blast
qed

theorem empty_string_passed_over_witness:
  "[''og:title'' \<mapsto> [], ''title'' \<mapsto> ''T''] ''og:title'' = Some [] \<and>
   final_title [''og:title'' \<mapsto> [], ''title'' \<mapsto> ''T''] =
     final_title ([''og:title'' \<mapsto> [], ''title'' \<mapsto> ''T''](''og:title'' := None)) \<and>
   final_title ([''og:title'' \<mapsto> [], ''title'' \<mapsto> ''T''](''og:title'' := None)) = Str ''T''"
proof -
  let ?obj = "[''og:title'' \<mapsto> [], ''title'' \<mapsto> ''T'']"
  have bound: "?obj ''og:title'' = Some []" by simp
  from empty_string_passed_over [of ?obj]
  have "\<forall>k \<in> {''og:title'', ''twitter:title''}.
      ?obj k = Some [] \<longrightarrow> final_title ?obj = final_title (?obj(k := None))"
    by (rule conjunct1)
  then have "?obj ''og:title'' = Some [] \<longrightarrow>
      final_title ?obj = final_title (?obj(''og:title'' := None))"
    by (rule bspec) simp
  with bound have same: "final_title ?obj = final_title (?obj(''og:title'' := None))"
    by (rule rev_mp)
  have "final_title (?obj(''og:title'' := None)) = Str ''T''"
    by (simp add: final_title_def js_or_def get_prop_def)
  with bound same show ?thesis by blast
qed

text \<open>
  The claim as written fails on the page whose \<^verbatim>\<open>description\<close> is empty: the chain's
  first key is bound to the empty string, and the description is the later key's value.
\<close>

theorem empty_string_counterexample:
  "extract_tags (demo_env page_description_empty None True) page_description_empty =
     Inr [''description'' \<mapsto> [], ''og:description'' \<mapsto> ''D''] \<and>
   [''description'' \<mapsto> [], ''og:description'' \<mapsto> ''D''] ''description'' = Some [] \<and>
   final_description [''description'' \<mapsto> [], ''og:description'' \<mapsto> ''D''] = Str ''D'' \<and>
   final_description [''description'' \<mapsto> [], ''og:description'' \<mapsto> ''D''] \<noteq> Str []"
  by (simp add: tags_description_empty final_description_def js_or_def get_prop_def)

section \<open>Meta and link elements\<close>

text \<open>
  C3 (as amended). For every element node that is not a title element, the extractor
  takes the key from the first non-empty attribute among \<^verbatim>\<open>name\<close>, \<^verbatim>\<open>property\<close>,
  \<^verbatim>\<open>itemprop\<close>, \<^verbatim>\<open>rel\<close> (in that order; with none, the key is the empty \<^verbatim>\<open>rel\<close> or else the
  text \<^verbatim>\<open>undefined\<close>) and the value from the first non-empty attribute among \<^verbatim>\<open>content\<close>,
  \<^verbatim>\<open>href\<close> (with none, an empty \<^verbatim>\<open>href\<close>); if there is no such value the node is skipped;
  otherwise the entity-decoded value is stored under the key, overwriting any prior value
  for that key, except under the key \<^verbatim>\<open>__proto__\<close>, where nothing is stored. A walk that
  completes yields, for each key, the binding of the last node in document order that
  binds it.
\<close>

theorem meta_node_stored:
  "(name \<noteq> ''title'' \<longrightarrow>
      callback env (Element name a cs) obj =
        Inr (case meta_value a of
               None \<Rightarrow> obj
             | Some v \<Rightarrow>
                 if meta_key a = ''__proto__'' then obj
                 else obj(meta_key a \<mapsto> he_decode env v))) \<and>
   (extract_tags env ast = Inr tags \<longrightarrow>
      tags = map_of (rev (List.map_filter (node_binding env) (walk ast))))"
proof -
  have "extract_tags env ast = Inr tags \<longrightarrow>
      tags = map_of (rev (List.map_filter (node_binding env) (walk ast)))"
    using visit_all_bindings [of env "walk ast" Map.empty tags]
    by (simp add: extract_tags_def)
  then show ?thesis
    using callback_meta [of name env a cs obj] by blast
qed

theorem meta_node_stored_witness:
  "callback (demo_env page_two_descriptions None True)
     (Element ''meta'' [''name'' \<mapsto> ''description'', ''content'' \<mapsto> ''second''] [])
     [''description'' \<mapsto> ''first''] = Inr [''description'' \<mapsto> ''second''] \<and>
   extract_tags (demo_env page_two_descriptions None True) page_two_descriptions =
     Inr [''description'' \<mapsto> ''second''] \<and>
   [''description'' \<mapsto> ''second''] =
     map_of (rev (List.map_filter (node_binding (demo_env page_two_descriptions None True))
                    (walk page_two_descriptions)))"
proof -
  let ?env = "demo_env page_two_descriptions None True"
  let ?a = "[''name'' \<mapsto> ''description'', ''content'' \<mapsto> ''second'']"
  have name: "''meta'' \<noteq> ''title''" by simp
  have run: "extract_tags ?env page_two_descriptions = Inr [''description'' \<mapsto> ''second'']"
    by (simp add: page_two_descriptions_def demo_defs run_defs)
  note inst = meta_node_stored
      [of "''meta''" ?env ?a "[]" "[''description'' \<mapsto> ''first'']" page_two_descriptions
          "[''description'' \<mapsto> ''second'']"]
  from inst name have "callback ?env (Element ''meta'' ?a []) [''description'' \<mapsto> ''first''] =
      Inr (case meta_value ?a of
             None \<Rightarrow> [''description'' \<mapsto> ''first'']
           | Some v \<Rightarrow>
               if meta_key ?a = ''__proto__'' then [''description'' \<mapsto> ''first'']
               else [''description'' \<mapsto> ''first''](meta_key ?a \<mapsto> he_decode ?env v))"
    by blast
  then have one: "callback ?env (Element ''meta'' ?a []) [''description'' \<mapsto> ''first''] =
      Inr [''description'' \<mapsto> ''second'']"
    by (simp add: meta_value_def meta_key_def demo_env_def)
  from inst run have "[''description'' \<mapsto> ''second''] =
      map_of (rev (List.map_filter (node_binding ?env) (walk page_two_descriptions)))"
    by blast
  with one run show ?thesis by blast
qed

text \<open>
  The claim as written fails on a meta tag whose \<^verbatim>\<open>name\<close> is present and empty: the first
  present key attribute is the empty \<^verbatim>\<open>name\<close>, and the value is stored under the
  \<^verbatim>\<open>property\<close>.
\<close>

theorem meta_node_counterexample:
  "first_present [attrs_empty_name ''name'', attrs_empty_name ''property'',
                  attrs_empty_name ''itemprop'', attrs_empty_name ''rel''] = Some [] \<and>
   first_present [attrs_empty_name ''content'', attrs_empty_name ''href''] = Some ''x'' \<and>
   callback (demo_env (Document []) None True) (Element ''meta'' attrs_empty_name [])
     Map.empty = Inr [''og:title'' \<mapsto> ''x''] \<and>
   [''og:title'' \<mapsto> ''x''] [] = None"
  by (simp add: attrs_empty_name_def demo_env_def Let_def js_or_def get_prop_def obj_set_def)

section \<open>The usage record\<close>

text \<open>
  C4 (as amended). For every completed extraction, the usage-recording call fires
  exactly once, after the fetch, keyed by the page URL, with the missing flag equal to
  true if and only if the final title or the final description is absent or the empty
  string, or the final image is absent (\<^verbatim>\<open>null\<close>).
\<close>

theorem record_fires_once:
  assumes "getMetaTags env u = (Inr m, calls)"
  shows "\<exists>flag. calls = [Fetch u, RecordMetatags u flag] \<and>
           flag = (title m = Undefined \<or> title m = Str [] \<or>
                   description m = Undefined \<or> description m = Str [] \<or>
                   image_url m = Null)"
proof -
  from assms obtain ast obj where
    t: "title m = final_title obj" and d: "description m = final_description obj" and
    i: "getRelativeUrl env u (raw_image obj) = Inr (image_url m)" and
    c: "calls =
       [Fetch u,
        RecordMetatags u
          (missing_flag (final_title obj) (final_description obj) (raw_image obj))]"
    by (rule getMetaTags_Inr)
  have tt: "(\<not> truthy (title m)) = (title m = Undefined \<or> title m = Str [])"
    using final_title_not_Null [of obj] t by (simp add: not_truthy_iff)
  have dd: "(\<not> truthy (description m)) = (description m = Undefined \<or> description m = Str [])"
    using final_description_not_Null [of obj] d by (simp add: not_truthy_iff)
  have ii: "(\<not> truthy (raw_image obj)) = (image_url m = Null)"
    using getRelativeUrl_Null [OF i] by simp
  have "missing_flag (final_title obj) (final_description obj) (raw_image obj) =
      (\<not> truthy (title m) \<or> \<not> truthy (description m) \<or> \<not> truthy (raw_image obj))"
    by (auto simp: missing_flag_def js_and_def t d)
  with tt dd ii c show ?thesis by simp
qed

theorem record_fires_once_witness:
  "getMetaTags (demo_env page_plain None True) demo_page =
     (Inr \<lparr>title = Str ''T'', description = Str ''D'',
           image_url = Str ''https://example.com/favicon.png''\<rparr>,
      [Fetch demo_page, RecordMetatags demo_page False]) \<and>
   (\<exists>flag. [Fetch demo_page, RecordMetatags demo_page False] =
             [Fetch demo_page, RecordMetatags demo_page flag] \<and>
           flag = False)"
proof -
  have run: "getMetaTags (demo_env page_plain None True) demo_page =
     (Inr \<lparr>title = Str ''T'', description = Str ''D'',
           image_url = Str ''https://example.com/favicon.png''\<rparr>,
      [Fetch demo_page, RecordMetatags demo_page False])"
    by (rule getMetaTags_plain)
  from record_fires_once [OF run] run show ?thesis by simp
qed

text \<open>
  The claim as written fails on the page whose \<^verbatim>\<open>title\<close> meta tag is empty: the three
  final fields are all strings, none is absent, and the flag is true.
\<close>

theorem record_flag_counterexample:
  "getMetaTags (demo_env page_title_empty None True) demo_page =
     (Inr \<lparr>title = Str [], description = Str ''D'',
           image_url = Str ''https://example.com/a.png''\<rparr>,
      [Fetch demo_page, RecordMetatags demo_page True])"
  by (rule getMetaTags_title_empty)

section \<open>The image resolver\<close>

text \<open>
  C5. For every page URL and raw image value, the image resolver returns \<^verbatim>\<open>null\<close> when
  the raw value is empty or \<^verbatim>\<open>null\<close> (or \<^verbatim>\<open>undefined\<close>), returns the raw value unchanged
  when it is already a valid absolute URL, and otherwise resolves it against the page's
  own origin \<^verbatim>\<open>protocol//host\<close>, the path discarded: the result is the resolved URL as a
  string, or the exception of the URL parser when the reference (or the page URL) does
  not parse. In particular, with the URL parser behaving on these strings as it does,
  \<^verbatim>\<open>/favicon.png\<close> on the page \<^verbatim>\<open>https://example.com/foo/bar\<close> is resolved against
  \<^verbatim>\<open>https://example.com\<close> and gives \<^verbatim>\<open>https://example.com/favicon.png\<close>.
\<close>

theorem image_resolver:
  "(raw = Null \<or> raw = Undefined \<or> raw = Str [] \<longrightarrow> getRelativeUrl env u raw = Inr Null) \<and>
   (raw = Str s \<and> s \<noteq> [] \<and> isValidUrl env raw \<longrightarrow> getRelativeUrl env u raw = Inr raw) \<and>
   (raw = Str s \<and> s \<noteq> [] \<and> \<not> isValidUrl env raw \<and> new_URL env u None = Some page \<longrightarrow>
      getRelativeUrl env u raw =
        (case new_URL env s (Some (protocol page @ ''//'' @ host page)) of
           None \<Rightarrow> Inl TypeError
         | Some r \<Rightarrow> Inr (Str (href r)))) \<and>
   (raw = Str s \<and> s \<noteq> [] \<and> \<not> isValidUrl env raw \<and> new_URL env u None = None \<longrightarrow>
      getRelativeUrl env u raw = Inl TypeError) \<and>
   (new_URL env ''https://example.com/foo/bar'' None = Some page \<and>
    protocol page = ''https:'' \<and> host page = ''example.com'' \<and>
    new_URL env ''/favicon.png'' None = None \<and>
    new_URL env ''/favicon.png'' (Some ''https://example.com'') = Some r \<and>
    href r = ''https://example.com/favicon.png'' \<longrightarrow>
      getRelativeUrl env ''https://example.com/foo/bar'' (Str ''/favicon.png'') =
        Inr (Str ''https://example.com/favicon.png''))"
proof -
  have "raw = Null \<or> raw = Undefined \<or> raw = Str [] \<longrightarrow> getRelativeUrl env u raw = Inr Null"
    by (auto simp: getRelativeUrl_def)
  moreover have "raw = Str s \<and> s \<noteq> [] \<and> isValidUrl env raw \<longrightarrow>
      getRelativeUrl env u raw = Inr raw"
    by (auto simp: getRelativeUrl_def)
  moreover have "raw = Str s \<and> s \<noteq> [] \<and> \<not> isValidUrl env raw \<and>
      new_URL env u None = Some page \<longrightarrow>
      getRelativeUrl env u raw =
        (case new_URL env s (Some (protocol page @ ''//'' @ host page)) of
           None \<Rightarrow> Inl TypeError
         | Some r \<Rightarrow> Inr (Str (href r)))"
    by (auto simp: getRelativeUrl_def Let_def)
  moreover have "raw = Str s \<and> s \<noteq> [] \<and> \<not> isValidUrl env raw \<and> new_URL env u None = None \<longrightarrow>
      getRelativeUrl env u raw = Inl TypeError"
    by (auto simp: getRelativeUrl_def)
  moreover have "new_URL env ''https://example.com/foo/bar'' None = Some page \<and>
    protocol page = ''https:'' \<and> host page = ''example.com'' \<and>
    new_URL env ''/favicon.png'' None = None \<and>
    new_URL env ''/favicon.png'' (Some ''https://example.com'') = Some r \<and>
    href r = ''https://example.com/favicon.png'' \<longrightarrow>
      getRelativeUrl env ''https://example.com/foo/bar'' (Str ''/favicon.png'') =
        Inr (Str ''https://example.com/favicon.png'')"
    by (simp add: getRelativeUrl_def isValidUrl_def Let_def)
  ultimately show ?thesis by blast
qed

theorem image_resolver_witness:
  "getRelativeUrl (demo_env page_plain None True) demo_page Null = Inr Null \<and>
   isValidUrl (demo_env page_plain None True) (Str ''https://example.com/a.png'') \<and>
   getRelativeUrl (demo_env page_plain None True) demo_page (Str ''https://example.com/a.png'') =
     Inr (Str ''https://example.com/a.png'') \<and>
   \<not> isValidUrl (demo_env page_plain None True) (Str ''/favicon.png'') \<and>
   getRelativeUrl (demo_env page_plain None True) ''https://example.com/foo/bar''
     (Str ''/favicon.png'') = Inr (Str ''https://example.com/favicon.png'') \<and>
   \<not> isValidUrl (demo_env page_plain None True) (Str ''http://'') \<and>
   getRelativeUrl (demo_env page_plain None True) demo_page (Str ''http://'') = Inl TypeError \<and>
   getRelativeUrl (demo_env page_plain None True) ''nowhere'' (Str ''/favicon.png'') =
     Inl TypeError"
proof -
  let ?env = "demo_env page_plain None True"
  let ?page = "\<lparr>protocol = ''https:'', host = ''example.com'',
                 href = ''https://example.com/foo/bar''\<rparr>"
  let ?icon = "\<lparr>protocol = ''https:'', host = ''example.com'',
                 href = ''https://example.com/favicon.png''\<rparr>"
  have page: "new_URL ?env demo_page None = Some ?page"
    by (simp add: demo_defs)
  have nowhere: "new_URL ?env ''nowhere'' None = None"
    by (simp add: demo_defs)
  have abs: "isValidUrl ?env (Str ''https://example.com/a.png'')"
    by (simp add: demo_defs isValidUrl_def)
  have rel: "\<not> isValidUrl ?env (Str ''/favicon.png'')"
    by (simp add: demo_defs isValidUrl_def)
  have bad: "\<not> isValidUrl ?env (Str ''http://'')"
    by (simp add: demo_defs isValidUrl_def)
  have a: "getRelativeUrl ?env demo_page Null = Inr Null"
    using image_resolver [of Null ?env demo_page] by blast
  have b: "getRelativeUrl ?env demo_page (Str ''https://example.com/a.png'') =
      Inr (Str ''https://example.com/a.png'')"
    using image_resolver [of "Str ''https://example.com/a.png''" ?env demo_page
        "''https://example.com/a.png''"] abs
    by simp
  have c: "getRelativeUrl ?env ''https://example.com/foo/bar'' (Str ''/favicon.png'') =
      Inr (Str ''https://example.com/favicon.png'')"
    using image_resolver [of Null ?env demo_page "[]" ?page ?icon]
    by (simp add: demo_defs)
  have d: "getRelativeUrl ?env demo_page (Str ''http://'') = Inl TypeError"
    using image_resolver [of "Str ''http://''" ?env demo_page "''http://''" ?page] bad page
    by (simp add: demo_env_def demo_URL_def)
  have e: "getRelativeUrl ?env ''nowhere'' (Str ''/favicon.png'') = Inl TypeError"
    using image_resolver [of "Str ''/favicon.png''" ?env "''nowhere''" "''/favicon.png''"]
      rel nowhere
    by simp
  from a b c d e abs rel bad show ?thesis by blast
qed

section \<open>The title element\<close>

text \<open>
  C6 (as amended). For every parsed document containing a title element with no child
  node, the extraction step fails with a runtime error (an unchecked access: the
  exception is not caught, nothing is recorded, and the request ends in a 500); for every
  title element whose first child carries a text value (a text, comment or doctype node),
  the page title \<^verbatim>\<open>map["title"]\<close> is set to the entity-decoded text of that first child; a
  title element whose first child is itself an element fails with a runtime error as
  well.
\<close>

theorem title_element:
  "(Element ''title'' a [] \<in> set (walk ast) \<longrightarrow>
      extract_tags env ast = Inl TypeError \<and>
      (getAst env u = Inr ast \<longrightarrow> getMetaTags env u = (Inl TypeError, [Fetch u]))) \<and>
   (node_value c = Str t \<longrightarrow>
      callback env (Element ''title'' a (c # cs)) obj = Inr (obj(''title'' \<mapsto> he_decode env t))) \<and>
   (node_value c = Undefined \<longrightarrow>
      callback env (Element ''title'' a (c # cs)) obj = Inl TypeError)"
proof -
  have "Element ''title'' a [] \<in> set (walk ast) \<longrightarrow>
      extract_tags env ast = Inl TypeError \<and>
      (getAst env u = Inr ast \<longrightarrow> getMetaTags env u = (Inl TypeError, [Fetch u]))"
    using visit_all_childless_title [of a "walk ast" env Map.empty]
    by (simp add: extract_tags_def getMetaTags_def)
  moreover have "node_value c = Str t \<longrightarrow>
      callback env (Element ''title'' a (c # cs)) obj = Inr (obj(''title'' \<mapsto> he_decode env t))"
    by (simp add: callback_title_child del: callback.simps)
  moreover have "node_value c = Undefined \<longrightarrow>
      callback env (Element ''title'' a (c # cs)) obj = Inl TypeError"
    by (simp add: callback_title_child del: callback.simps)
  ultimately show ?thesis by blast
qed

theorem title_element_witness:
  "Element ''title'' Map.empty [] \<in> set (walk page_title_childless) \<and>
   extract_tags (demo_env page_title_childless None True) page_title_childless =
     Inl TypeError \<and>
   getMetaTags (demo_env page_title_childless None True) demo_page =
     (Inl TypeError, [Fetch demo_page]) \<and>
   callback (demo_env page_title_childless None True)
     (Element ''title'' Map.empty [Text ''T'', Comment ''c'']) Map.empty =
     Inr [''title'' \<mapsto> ''T''] \<and>
   callback (demo_env page_title_childless None True)
     (Element ''title'' Map.empty [Element ''b'' Map.empty []]) Map.empty = Inl TypeError"
proof -
  let ?env = "demo_env page_title_childless None True"
  have inside: "Element ''title'' Map.empty [] \<in> set (walk page_title_childless)"
    by (simp add: page_title_childless_def)
  have ast: "getAst ?env demo_page = Inr page_title_childless"
    by (simp add: demo_defs getAst_def getHtml_def specialHostnames_def)
  have leaf: "node_value (Text ''T'') = Str ''T''"
    by simp
  have markup: "node_value (Element ''b'' Map.empty []) = Undefined"
    by simp
  note inst1 = title_element
      [of Map.empty page_title_childless ?env demo_page "Text ''T''" "''T''" "[Comment ''c'']"
          Map.empty]
  note inst2 = title_element
      [of Map.empty page_title_childless ?env demo_page "Element ''b'' Map.empty []" "[]" "[]"
          Map.empty]
  from inst1 inside ast
  have one: "extract_tags ?env page_title_childless = Inl TypeError"
    and two: "getMetaTags ?env demo_page = (Inl TypeError, [Fetch demo_page])"
    by blast+
  from inst1 leaf
  have three: "callback ?env (Element ''title'' Map.empty [Text ''T'', Comment ''c'']) Map.empty =
      Inr [''title'' \<mapsto> he_decode ?env ''T'']"
    by blast
  from inst2 markup
  have four: "callback ?env (Element ''title'' Map.empty [Element ''b'' Map.empty []]) Map.empty =
      Inl TypeError"
    by blast
  from three have "callback ?env (Element ''title'' Map.empty [Text ''T'', Comment ''c'']) Map.empty =
      Inr [''title'' \<mapsto> ''T'']"
    by (simp add: demo_env_def)
  with inside one two four show ?thesis by blast
qed

text \<open>
  The claim as written fails on a title element whose first child is an element: it has
  a child, and the page title is not set; the step fails.
\<close>

theorem title_element_counterexample:
  "title_with_markup = Element ''title'' Map.empty [Element ''b'' Map.empty [Text ''x'']] \<and>
   callback (demo_env (Document [title_with_markup]) None True) title_with_markup Map.empty =
     Inl TypeError \<and>
   extract_tags (demo_env (Document [title_with_markup]) None True)
     (Document [title_with_markup]) = Inl TypeError"
  by (simp add: title_with_markup_def extract_tags_def Let_def)

section \<open>Invalid URLs\<close>

text \<open>
  C7. For every GET request whose \<^verbatim>\<open>url\<close> query parameter is missing or does not parse as
  a valid absolute URL (more generally, is not accepted by the URL validator), the
  handler returns HTTP 400 with body \<^verbatim>\<open>Invalid URL\<close> before any network call,
  rate-limiter check or token verification is made.
\<close>

theorem invalid_url_rejected:
  assumes "req_method req = ''GET''"
  shows "(url_param req = Null \<or> (\<exists>s. url_param req = Str s \<and> new_URL env s None = None) \<or>
          \<not> isValidUrl env (url_param req) \<longrightarrow>
            handler env req =
              (Inr \<lparr>status = 400, headers = [], body = TextBody ''Invalid URL''\<rparr>, []))"
proof -
  have "url_param req = Null \<or> (\<exists>s. url_param req = Str s \<and> new_URL env s None = None) \<longrightarrow>
      \<not> isValidUrl env (url_param req)"
    by (auto simp: isValidUrl_def)
  moreover have "\<not> isValidUrl env (url_param req) \<longrightarrow>
      handler env req =
        (Inr \<lparr>status = 400, headers = [], body = TextBody ''Invalid URL''\<rparr>, [])"
    using assms by (simp add: handler_def)
  ultimately show ?thesis by blast
qed

theorem invalid_url_rejected_witness:
  "req_method (demo_request ''GET'' Null) = ''GET'' \<and>
   url_param (demo_request ''GET'' Null) = Null \<and>
   handler (demo_env page_plain None True) (demo_request ''GET'' Null) =
     (Inr \<lparr>status = 400, headers = [], body = TextBody ''Invalid URL''\<rparr>, []) \<and>
   new_URL (demo_env page_plain None True) ''not a url'' None = None \<and>
   handler (demo_env page_plain None True) (demo_request ''GET'' (Str ''not a url'')) =
     (Inr \<lparr>status = 400, headers = [], body = TextBody ''Invalid URL''\<rparr>, [])"
proof -
  let ?env = "demo_env page_plain None True"
  have get1: "req_method (demo_request ''GET'' Null) = ''GET''"
    and get2: "req_method (demo_request ''GET'' (Str ''not a url'')) = ''GET''"
    and missing: "url_param (demo_request ''GET'' Null) = Null"
    and given: "url_param (demo_request ''GET'' (Str ''not a url'')) = Str ''not a url''"
    by (simp_all add: demo_request_def)
  have unparsed: "new_URL ?env ''not a url'' None = None"
    by (simp add: demo_defs)
  from invalid_url_rejected [OF get1, of ?env] missing
  have one: "handler ?env (demo_request ''GET'' Null) =
      (Inr \<lparr>status = 400, headers = [], body = TextBody ''Invalid URL''\<rparr>, [])"
    by blast
  from invalid_url_rejected [OF get2, of ?env] given unparsed
  have two: "handler ?env (demo_request ''GET'' (Str ''not a url'')) =
      (Inr \<lparr>status = 400, headers = [], body = TextBody ''Invalid URL''\<rparr>, [])"
    by blast
  from get1 missing one unparsed two show ?thesis by blast
qed

section \<open>The handler on a valid URL\<close>

lemma handler_valid:
  assumes "req_method req = ''GET''" and "url_param req = Str s" and "isValidUrl env (Str s)"
  shows "handler env req =
     (let anonymous = \<not> truthy (session_email (getToken env req));
          gate = GetToken # (if anonymous then [RateLimit ''metatags''] else [])
      in if anonymous \<and> \<not> ratelimit_limit env ''metatags'' then
           (Inr \<lparr>status = 429, headers = [], body = TextBody rate_limited_body\<rparr>, gate)
         else
           (case getMetaTags env s of
              (Inl e, calls) \<Rightarrow> (Inl e, gate @ calls)
            | (Inr metatags, calls) \<Rightarrow>
                (Inr \<lparr>status = 200,
                      headers = [(''Content-Type'', ''application/json'')],
                      body = JsonBody (JSON_stringify metatags)\<rparr>,
                 gate @ calls)))"
  using assms by (simp add: handler_def Let_def)

lemma handler_calls:
  assumes "req_method req = ''GET''" and "url_param req = Str s" and "isValidUrl env (Str s)"
  shows "\<exists>rest. snd (handler env req) =
           GetToken #
             (if truthy (session_email (getToken env req)) then []
              else [RateLimit ''metatags'']) @ rest \<and>
           (\<forall>k. RateLimit k \<notin> set rest)"
proof (cases "\<not> truthy (session_email (getToken env req)) \<and> \<not> ratelimit_limit env ''metatags''")
  case True
  then show ?thesis
    by (simp add: handler_valid [OF assms])
next
  case False
  obtain r calls where run: "getMetaTags env s = (r, calls)"
    by (cases "getMetaTags env s")
  with getMetaTags_calls [of env s] have "\<forall>k. RateLimit k \<notin> set calls"
    by auto
  with False run show ?thesis
    by (cases r) (auto simp: handler_valid [OF assms] Let_def)
qed

lemma handler_passed:
  assumes "req_method req = ''GET''" and "url_param req = Str s" and "isValidUrl env (Str s)"
    and "truthy (session_email (getToken env req)) \<or> ratelimit_limit env ''metatags''"
  shows "fst (handler env req) =
     (case fst (getMetaTags env s) of
        Inl e \<Rightarrow> Inl e
      | Inr metatags \<Rightarrow>
          Inr \<lparr>status = 200,
                headers = [(''Content-Type'', ''application/json'')],
                body = JsonBody (JSON_stringify metatags)\<rparr>)"
    and "set (snd (getMetaTags env s)) \<subseteq> set (snd (handler env req))"
  using assms(4)
  by (auto simp: handler_valid [OF assms(1-3)] Let_def split: prod.splits sum.splits)

lemma handler_plain:
  "handler (demo_env page_plain who ok) (demo_request ''GET'' (Str demo_page)) =
     (if truthy (session_email who) \<or> ok then
        (Inr \<lparr>status = 200,
              headers = [(''Content-Type'', ''application/json'')],
              body = JsonBody [(''title'', JString ''T''), (''description'', JString ''D''),
                               (''image'', JString ''https://example.com/favicon.png'')]\<rparr>,
         GetToken # (if truthy (session_email who) then [] else [RateLimit ''metatags'']) @
           [Fetch demo_page, RecordMetatags demo_page False])
      else
        (Inr \<lparr>status = 429, headers = [], body = TextBody rate_limited_body\<rparr>,
         [GetToken, RateLimit ''metatags'']))"
proof -
  have get: "req_method (demo_request ''GET'' (Str demo_page)) = ''GET''"
    and par: "url_param (demo_request ''GET'' (Str demo_page)) = Str demo_page"
    by (simp_all add: demo_request_def)
  have tok: "getToken (demo_env page_plain who ok) (demo_request ''GET'' (Str demo_page)) = who"
    and lim: "ratelimit_limit (demo_env page_plain who ok) ''metatags'' = ok"
    by (simp_all add: demo_env_def)
  show ?thesis
    by (simp add: handler_valid [OF get par demo_page_valid] getMetaTags_plain tok lim
          JSON_stringify_def)
qed

section \<open>The rate limit\<close>

text \<open>
  C8 (as amended). For every GET request with a valid url: if an authenticated identity
  (a session whose e-mail is a non-empty string) is resolved from the session token, the
  rate limiter is never consulted; otherwise the limiter is called, once, with the
  constant bucket key \<^verbatim>\<open>metatags\<close>, and if it reports exhaustion the handler returns HTTP
  429 with the fixed body and performs no fetch.
\<close>

theorem rate_limit_gate:
  assumes "req_method req = ''GET''" and "isValidUrl env (url_param req)"
  shows "(truthy (session_email (getToken env req)) \<longrightarrow>
            (\<forall>k. RateLimit k \<notin> set (snd (handler env req)))) \<and>
         (\<not> truthy (session_email (getToken env req)) \<longrightarrow>
            (\<exists>rest. snd (handler env req) = GetToken # RateLimit ''metatags'' # rest \<and>
                    (\<forall>k. RateLimit k \<notin> set rest)) \<and>
            (\<not> ratelimit_limit env ''metatags'' \<longrightarrow>
               handler env req =
                 (Inr \<lparr>status = 429, headers = [], body = TextBody rate_limited_body\<rparr>,
                  [GetToken, RateLimit ''metatags''])))"
proof -
  from assms(2) obtain s where s: "url_param req = Str s"
    using isValidUrl_Str by blast
  with assms(2) have valid: "isValidUrl env (Str s)" by simp
  from handler_calls [OF assms(1) s valid] obtain rest where
    calls: "snd (handler env req) =
           GetToken #
             (if truthy (session_email (getToken env req)) then []
              else [RateLimit ''metatags'']) @ rest"
    and rest: "\<forall>k. RateLimit k \<notin> set rest"
    by blast
  have "truthy (session_email (getToken env req)) \<longrightarrow>
      (\<forall>k. RateLimit k \<notin> set (snd (handler env req)))"
    using calls rest by simp
  moreover have "\<not> truthy (session_email (getToken env req)) \<longrightarrow>
      (\<exists>rest. snd (handler env req) = GetToken # RateLimit ''metatags'' # rest \<and>
              (\<forall>k. RateLimit k \<notin> set rest))"
    using calls rest by simp
  moreover have "\<not> truthy (session_email (getToken env req)) \<longrightarrow>
      \<not> ratelimit_limit env ''metatags'' \<longrightarrow>
         handler env req =
           (Inr \<lparr>status = 429, headers = [], body = TextBody rate_limited_body\<rparr>,
            [GetToken, RateLimit ''metatags''])"
    by (simp add: handler_valid [OF assms(1) s valid])
  ultimately show ?thesis by blast
qed

theorem rate_limit_gate_witness:
  "req_method (demo_request ''GET'' (Str demo_page)) = ''GET'' \<and>
   isValidUrl (demo_env page_plain demo_user False) (Str demo_page) \<and>
   truthy (session_email demo_user) \<and>
   RateLimit ''metatags'' \<notin>
     set (snd (handler (demo_env page_plain demo_user False)
                 (demo_request ''GET'' (Str demo_page)))) \<and>
   \<not> truthy (session_email None) \<and>
   handler (demo_env page_plain None False) (demo_request ''GET'' (Str demo_page)) =
     (Inr \<lparr>status = 429, headers = [], body = TextBody rate_limited_body\<rparr>,
      [GetToken, RateLimit ''metatags''])"
proof -
  let ?req = "demo_request ''GET'' (Str demo_page)"
  have get: "req_method ?req = ''GET''"
    by (simp add: demo_request_def)
  have par: "url_param ?req = Str demo_page"
    by (simp add: demo_request_def)
  have valid1: "isValidUrl (demo_env page_plain demo_user False) (url_param ?req)"
    and valid2: "isValidUrl (demo_env page_plain None False) (url_param ?req)"
    by (simp_all add: par demo_page_valid)
  have user: "truthy (session_email (getToken (demo_env page_plain demo_user False) ?req))"
    by (simp add: demo_env_def demo_user_def)
  have anon: "\<not> truthy (session_email (getToken (demo_env page_plain None False) ?req))"
    and full: "\<not> ratelimit_limit (demo_env page_plain None False) ''metatags''"
    by (simp_all add: demo_env_def)
  from rate_limit_gate [OF get valid1] user
  have one: "RateLimit ''metatags'' \<notin>
      set (snd (handler (demo_env page_plain demo_user False) ?req))"
    by blast
  from rate_limit_gate [OF get valid2] anon full
  have two: "handler (demo_env page_plain None False) ?req =
      (Inr \<lparr>status = 429, headers = [], body = TextBody rate_limited_body\<rparr>,
       [GetToken, RateLimit ''metatags''])"
    by blast
  have "truthy (session_email demo_user)" and "\<not> truthy (session_email None)"
    by (simp_all add: demo_user_def)
  with get valid1 one two show ?thesis
    by (simp add: par)
qed

text \<open>
  The claim as written speaks of every request: a POST request with a valid url and no
  session is answered 405, and the limiter is not called.
\<close>

theorem rate_limit_counterexample:
  "isValidUrl (demo_env page_plain None False) (url_param (demo_request ''POST'' (Str demo_page))) \<and>
   \<not> truthy (session_email
       (getToken (demo_env page_plain None False) (demo_request ''POST'' (Str demo_page)))) \<and>
   handler (demo_env page_plain None False) (demo_request ''POST'' (Str demo_page)) =
     (Inr \<lparr>status = 405, headers = [], body = TextBody ''Method POST Not Allowed''\<rparr>, [])"
  by (simp add: handler_def demo_defs isValidUrl_def)

section \<open>The successful response\<close>

text \<open>
  C9 (as amended). For every GET request that passes validation, gating, fetch and
  extraction, the handler returns HTTP 200 with Content-Type \<^verbatim>\<open>application/json\<close> and a
  JSON body with no other keys than \<^verbatim>\<open>title\<close>, \<^verbatim>\<open>description\<close> and \<^verbatim>\<open>image\<close>: the key
  \<^verbatim>\<open>image\<close> is always there and its value is a string or \<^verbatim>\<open>null\<close>; the key \<^verbatim>\<open>title\<close> (and
  likewise \<^verbatim>\<open>description\<close>) is there, with a string value, exactly when the extracted
  title is defined, and is left out of the body when it is undefined.
\<close>

theorem success_response:
  assumes "req_method req = ''GET''" and "url_param req = Str s" and "isValidUrl env (Str s)"
    and "truthy (session_email (getToken env req)) \<or> ratelimit_limit env ''metatags''"
    and "getMetaTags env s = (Inr m, calls)"
  shows "\<exists>members.
           fst (handler env req) =
             Inr \<lparr>status = 200, headers = [(''Content-Type'', ''application/json'')],
                  body = JsonBody members\<rparr> \<and>
           set (map fst members) \<subseteq> {''title'', ''description'', ''image''} \<and>
           distinct (map fst members) \<and>
           (map_of members ''image'' = Some JNull \<or>
            (\<exists>i. map_of members ''image'' = Some (JString i))) \<and>
           (title m = Undefined \<and> map_of members ''title'' = None \<or>
            (\<exists>t. title m = Str t \<and> map_of members ''title'' = Some (JString t))) \<and>
           (description m = Undefined \<and> map_of members ''description'' = None \<or>
            (\<exists>d. description m = Str d \<and> map_of members ''description'' = Some (JString d)))"
proof -
  from assms(5) obtain ast obj where
    t: "title m = final_title obj" and d: "description m = final_description obj" and
    i: "getRelativeUrl env s (raw_image obj) = Inr (image_url m)"
    by (rule getMetaTags_Inr)
  have tn: "title m \<noteq> Null" using final_title_not_Null [of obj] t by simp
  have dn: "description m \<noteq> Null" using final_description_not_Null [of obj] d by simp
  have iu: "image_url m \<noteq> Undefined" using getRelativeUrl_defined [OF i] .
  let ?members = "JSON_stringify m"
  have resp: "fst (handler env req) =
      Inr \<lparr>status = 200, headers = [(''Content-Type'', ''application/json'')],
           body = JsonBody ?members\<rparr>"
    using handler_passed(1) [OF assms(1-4)] assms(5) by simp
  have keys: "set (map fst ?members) \<subseteq> {''title'', ''description'', ''image''}"
    by (cases "title m"; cases "description m"; cases "image_url m")
       (simp_all add: JSON_stringify_def)
  have dist: "distinct (map fst ?members)"
    by (cases "title m"; cases "description m"; cases "image_url m")
       (simp_all add: JSON_stringify_def)
  have img: "map_of ?members ''image'' = Some JNull \<or>
      (\<exists>i. map_of ?members ''image'' = Some (JString i))"
    using iu
    by (cases "title m"; cases "description m"; cases "image_url m")
       (simp_all add: JSON_stringify_def)
  have ttl: "title m = Undefined \<and> map_of ?members ''title'' = None \<or>
      (\<exists>t. title m = Str t \<and> map_of ?members ''title'' = Some (JString t))"
    using tn
    by (cases "title m"; cases "description m"; cases "image_url m")
       (simp_all add: JSON_stringify_def)
  have dsc: "description m = Undefined \<and> map_of ?members ''description'' = None \<or>
      (\<exists>d. description m = Str d \<and> map_of ?members ''description'' = Some (JString d))"
    using dn
    by (cases "title m"; cases "description m"; cases "image_url m")
       (simp_all add: JSON_stringify_def)
  from resp keys dist img ttl dsc show ?thesis by blast
qed

theorem success_response_witness:
  "req_method (demo_request ''GET'' (Str demo_page)) = ''GET'' \<and>
   isValidUrl (demo_env page_plain None True) (Str demo_page) \<and>
   ratelimit_limit (demo_env page_plain None True) ''metatags'' \<and>
   fst (handler (demo_env page_plain None True) (demo_request ''GET'' (Str demo_page))) =
     Inr \<lparr>status = 200, headers = [(''Content-Type'', ''application/json'')],
          body = JsonBody [(''title'', JString ''T''), (''description'', JString ''D''),
                           (''image'', JString ''https://example.com/favicon.png'')]\<rparr> \<and>
   (\<exists>members.
      fst (handler (demo_env page_plain None True) (demo_request ''GET'' (Str demo_page))) =
        Inr \<lparr>status = 200, headers = [(''Content-Type'', ''application/json'')],
             body = JsonBody members\<rparr> \<and>
      map_of members ''title'' = Some (JString ''T''))"
proof -
  let ?env = "demo_env page_plain None True"
  let ?req = "demo_request ''GET'' (Str demo_page)"
  have get: "req_method ?req = ''GET''" and par: "url_param ?req = Str demo_page"
    by (simp_all add: demo_request_def)
  have valid: "isValidUrl ?env (Str demo_page)"
    by (rule demo_page_valid)
  have lim: "ratelimit_limit ?env ''metatags''"
    by (simp add: demo_env_def)
  then have gate: "truthy (session_email (getToken ?env ?req)) \<or> ratelimit_limit ?env ''metatags''"
    by simp
  have run: "getMetaTags ?env demo_page =
     (Inr \<lparr>title = Str ''T'', description = Str ''D'',
           image_url = Str ''https://example.com/favicon.png''\<rparr>,
      [Fetch demo_page, RecordMetatags demo_page False])"
    by (rule getMetaTags_plain)
  from success_response [OF get par valid gate run]
  have "\<exists>members.
      fst (handler ?env ?req) =
        Inr \<lparr>status = 200, headers = [(''Content-Type'', ''application/json'')],
             body = JsonBody members\<rparr> \<and>
      map_of members ''title'' = Some (JString ''T'')"
    by auto
  moreover have "fst (handler ?env ?req) =
     Inr \<lparr>status = 200, headers = [(''Content-Type'', ''application/json'')],
          body = JsonBody [(''title'', JString ''T''), (''description'', JString ''D''),
                           (''image'', JString ''https://example.com/favicon.png'')]\<rparr>"
    by (simp add: handler_plain)
  ultimately show ?thesis
    using get valid lim by blast
qed

text \<open>
  The claim as written fails on a page without metadata: the request passes every
  step, and the body holds the key \<^verbatim>\<open>image\<close> alone.
\<close>

theorem success_response_counterexample:
  "handler (demo_env (Document []) None True) (demo_request ''GET'' (Str demo_page)) =
     (Inr \<lparr>status = 200, headers = [(''Content-Type'', ''application/json'')],
           body = JsonBody [(''image'', JNull)]\<rparr>,
      [GetToken, RateLimit ''metatags'', Fetch demo_page, RecordMetatags demo_page True])"
proof -
  have get: "req_method (demo_request ''GET'' (Str demo_page)) = ''GET''"
    and par: "url_param (demo_request ''GET'' (Str demo_page)) = Str demo_page"
    by (simp_all add: demo_request_def)
  have tok: "getToken (demo_env (Document []) None True)
      (demo_request ''GET'' (Str demo_page)) = None"
    and lim: "ratelimit_limit (demo_env (Document []) None True) ''metatags''"
    by (simp_all add: demo_env_def)
  show ?thesis
    by (simp add: handler_valid [OF get par demo_page_valid] getMetaTags_empty_page
          JSON_stringify_def tok lim)
qed

section \<open>Recording before resolving\<close>

text \<open>
  C10. The usage-recording call is dispatched before the image URL is resolved, and its
  missing flag is computed from the raw image value: for every extraction in which
  resolving the raw image value against the page origin throws, the calls made are the
  fetch and then the recording call, whose flag (the raw image being non-empty here)
  tells whether title or description is missing; and a request that reaches this
  extraction fails with the exception (a 500) after the recording call has fired.
\<close>

theorem record_before_resolution:
  assumes "getAst env u = Inr ast" and "extract_tags env ast = Inr tags"
    and "getRelativeUrl env u (raw_image tags) = Inl e"
  shows "getMetaTags env u =
           (Inl e,
            [Fetch u,
             RecordMetatags u
               (missing_flag (final_title tags) (final_description tags) (raw_image tags))]) \<and>
         truthy (raw_image tags) \<and>
         missing_flag (final_title tags) (final_description tags) (raw_image tags) =
           (\<not> (truthy (final_title tags) \<and> truthy (final_description tags))) \<and>
         (req_method req = ''GET'' \<and> url_param req = Str u \<and> isValidUrl env (Str u) \<and>
          (truthy (session_email (getToken env req)) \<or> ratelimit_limit env ''metatags'') \<longrightarrow>
            fst (handler env req) = Inl e \<and>
            RecordMetatags u
              (missing_flag (final_title tags) (final_description tags) (raw_image tags))
              \<in> set (snd (handler env req)))"
proof -
  let ?flag = "missing_flag (final_title tags) (final_description tags) (raw_image tags)"
  have run: "getMetaTags env u = (Inl e, [Fetch u, RecordMetatags u ?flag])"
    using assms by (simp add: getMetaTags_def Let_def)
  have raw: "truthy (raw_image tags)"
    using getRelativeUrl_throws [OF assms(3)] by simp
  then have flag: "?flag = (\<not> (truthy (final_title tags) \<and> truthy (final_description tags)))"
    by (auto simp: missing_flag_def js_and_def)
  have "req_method req = ''GET'' \<and> url_param req = Str u \<and> isValidUrl env (Str u) \<and>
      (truthy (session_email (getToken env req)) \<or> ratelimit_limit env ''metatags'') \<longrightarrow>
        fst (handler env req) = Inl e \<and> RecordMetatags u ?flag \<in> set (snd (handler env req))"
    using handler_passed [of req u env] run by auto
  with run raw flag show ?thesis by blast
qed

theorem record_before_resolution_witness:
  "getAst (demo_env page_bad_image None True) demo_page = Inr page_bad_image \<and>
   extract_tags (demo_env page_bad_image None True) page_bad_image =
     Inr [''title'' \<mapsto> ''T'', ''og:image'' \<mapsto> ''http://''] \<and>
   getRelativeUrl (demo_env page_bad_image None True) demo_page
     (raw_image [''title'' \<mapsto> ''T'', ''og:image'' \<mapsto> ''http://'']) = Inl TypeError \<and>
   getMetaTags (demo_env page_bad_image None True) demo_page =
     (Inl TypeError, [Fetch demo_page, RecordMetatags demo_page True]) \<and>
   fst (handler (demo_env page_bad_image None True) (demo_request ''GET'' (Str demo_page))) =
     Inl TypeError \<and>
   RecordMetatags demo_page True
     \<in> set (snd (handler (demo_env page_bad_image None True)
                   (demo_request ''GET'' (Str demo_page))))"
proof -
  let ?env = "demo_env page_bad_image None True"
  let ?req = "demo_request ''GET'' (Str demo_page)"
  let ?tags = "[''title'' \<mapsto> ''T'', ''og:image'' \<mapsto> ''http://'']"
  have ast: "getAst ?env demo_page = Inr page_bad_image"
    by (simp add: demo_defs getAst_def getHtml_def specialHostnames_def)
  have tags: "extract_tags ?env page_bad_image = Inr ?tags"
    by (simp add: page_bad_image_def demo_defs run_defs)
  have throws: "getRelativeUrl ?env demo_page (raw_image ?tags) = Inl TypeError"
    by (simp add: demo_defs run_defs)
  have flag: "missing_flag (final_title ?tags) (final_description ?tags) (raw_image ?tags) = True"
    by (simp add: run_defs)
  have req: "req_method ?req = ''GET'' \<and> url_param ?req = Str demo_page \<and>
      isValidUrl ?env (Str demo_page) \<and>
      (truthy (session_email (getToken ?env ?req)) \<or> ratelimit_limit ?env ''metatags'')"
    by (simp add: demo_request_def demo_page_valid) (simp add: demo_env_def)
  from record_before_resolution [OF ast tags throws, of ?req] req
  have "getMetaTags ?env demo_page =
      (Inl TypeError,
       [Fetch demo_page,
        RecordMetatags demo_page
          (missing_flag (final_title ?tags) (final_description ?tags) (raw_image ?tags))])"
    and "fst (handler ?env ?req) = Inl TypeError"
    and "RecordMetatags demo_page
          (missing_flag (final_title ?tags) (final_description ?tags) (raw_image ?tags))
          \<in> set (snd (handler ?env ?req))"
    by blast+
  with ast tags throws show ?thesis
    by (simp only: flag simp_thms)
qed

end
